theory Spec2Isabelle
  imports Main "HOL-Library.AList" "HOL-Library.Sublist"
begin

section \<open>JavaScript strings and values\<close>

text \<open>
  A JavaScript string is a sequence of UTF-16 code units. The character classes of
  \<^verbatim>\<open>parser.js\<close> name code units beyond ASCII (U+0400 to U+04FF, U+3040 to U+30FF, ...),
  so a string is modelled as the list of its code units, each given by its number
  (an integer from 0 to 65535). \<open>js\<close> turns an ASCII literal into such a list.
\<close>

type_synonym jschar = int
type_synonym jsstring = "jschar list"

definition js :: "string \<Rightarrow> jsstring" where
  "js s = map of_char s"

text \<open>
  The values that a transformer returns and that the result object stores. Only their
  truthiness matters to the engine: \<^verbatim>\<open>undefined\<close>, \<^verbatim>\<open>null\<close>, \<^verbatim>\<open>false\<close>, \<^verbatim>\<open>0\<close>
  and the empty string are falsy, everything else is truthy. Numbers are integers
  (\<^verbatim>\<open>NaN\<close> and fractions are not modelled).
\<close>

datatype jsval =
    VUndefined
  | VNull
  | VBool bool
  | VNum int
  | VStr jsstring
  | VArray "jsval list"

fun truthy :: "jsval \<Rightarrow> bool" where
  "truthy VUndefined = False"
| "truthy VNull = False"
| "truthy (VBool b) = b"
| "truthy (VNum n) = (n \<noteq> 0)"
| "truthy (VStr s) = (s \<noteq> [])"
| "truthy (VArray xs) = True"

text \<open>\<^verbatim>\<open>a || b\<close> on values.\<close>

definition js_or :: "jsval \<Rightarrow> jsval \<Rightarrow> jsval" where
  "js_or a b = (if truthy a then a else b)"

text \<open>
  \<^verbatim>\<open>String.prototype.slice(begin, end)\<close>: a negative argument counts from the end of the
  string, and both are clamped to the string.
\<close>

definition slice_index :: "jsstring \<Rightarrow> int \<Rightarrow> nat" where
  "slice_index s k =
     (if k < 0 then nat (max (int (length s) + k) 0) else min (nat k) (length s))"

definition slice :: "jsstring \<Rightarrow> int \<Rightarrow> int \<Rightarrow> jsstring" where
  "slice s b e = take (slice_index s e - slice_index s b) (drop (slice_index s b) s)"

definition slice_from :: "jsstring \<Rightarrow> int \<Rightarrow> jsstring" where
  "slice_from s b = drop (slice_index s b) s"

text \<open>\<^verbatim>\<open>String.prototype.includes\<close>: the needle occurs as a contiguous run.\<close>

fun js_includes :: "jsstring \<Rightarrow> jsstring \<Rightarrow> bool" where
  "js_includes [] needle = (needle = [])"
| "js_includes (c # cs) needle =
     (take (length needle) (c # cs) = needle \<or> js_includes cs needle)"

text \<open>
  \<^verbatim>\<open>String.prototype.trim\<close> removes white space and line terminators from both ends.
\<close>

definition is_space :: "jschar \<Rightarrow> bool" where
  "is_space c \<longleftrightarrow>
     c \<in> set [0x9, 0xA, 0xB, 0xC, 0xD, 0x20, 0xA0, 0x1680, 0x2028, 0x2029, 0x202F,
       0x205F, 0x3000, 0xFEFF] \<or> (0x2000 \<le> c \<and> c \<le> 0x200A)"

definition trim :: "jsstring \<Rightarrow> jsstring" where
  "trim s = rev (dropWhile is_space (rev (dropWhile is_space s)))"

section \<open>Regular expressions\<close>

text \<open>
  The regular expressions of \<^verbatim>\<open>parser.js\<close> use character classes, the dot, the anchors
  \<^verbatim>\<open>^\<close> and \<^verbatim>\<open>$\<close> (without the multiline flag), concatenation, alternation, the greedy
  quantifiers \<^verbatim>\<open>*\<close>, \<^verbatim>\<open>+\<close> and \<^verbatim>\<open>?\<close>, one capture group, and lookbehind and
  lookahead assertions. \<open>Cap\<close> is the first capture group of the expression; a further
  group, whose text nothing reads, is written as its body.
\<close>

datatype regex =
    Eps
  | Cls "(jschar \<times> jschar) list"
  | NCls "(jschar \<times> jschar) list"
  | Bol
  | Eol
  | Seq regex regex
  | Alt regex regex
  | Star regex
  | Opt regex
  | Cap regex
  | LookBehind regex
  | LookAhead regex

type_synonym capture = "(nat \<times> nat) option"

definition in_class :: "jschar \<Rightarrow> (jschar \<times> jschar) list \<Rightarrow> bool" where
  "in_class c rs = list_ex (\<lambda>lh. fst lh \<le> c \<and> c \<le> snd lh) rs"

fun has_cap :: "regex \<Rightarrow> bool" where
  "has_cap (Cap a) = True"
| "has_cap (Seq a b) = (has_cap a \<or> has_cap b)"
| "has_cap (Alt a b) = (has_cap a \<or> has_cap b)"
| "has_cap (Star a) = has_cap a"
| "has_cap (Opt a) = has_cap a"
| "has_cap (LookBehind a) = has_cap a"
| "has_cap (LookAhead a) = has_cap a"
| "has_cap r = False"

text \<open>A quantifier clears, at the start of each iteration, the captures of its body.\<close>

definition enter :: "regex \<Rightarrow> capture \<Rightarrow> capture" where
  "enter a c = (if has_cap a then None else c)"

text \<open>
  \<open>rmatch r s i c\<close> lists, in the order in which a backtracking matcher tries them, the
  ways in which \<open>r\<close> matches \<open>s\<close> from position \<open>i\<close>: each is the end position and the
  capture. A quantifier is greedy and rejects an iteration that matches the empty
  string, as ECMAScript's RepeatMatcher does. The bound \<open>j \<le> length s\<close> in the
  \<open>Star\<close> case holds of every match (lemma \<open>rmatch_bounds\<close>): it is there for the
  termination proof. A lookbehind succeeds when its body matches some stretch of text
  that ends at \<open>i\<close>; its body holds no capture group.
\<close>

function rmatch :: "regex \<Rightarrow> jsstring \<Rightarrow> nat \<Rightarrow> capture \<Rightarrow> (nat \<times> capture) list" where
  "rmatch Eps s i c = [(i, c)]"
| "rmatch (Cls rs) s i c =
     (if i < length s \<and> in_class (s ! i) rs then [(Suc i, c)] else [])"
| "rmatch (NCls rs) s i c =
     (if i < length s \<and> \<not> in_class (s ! i) rs then [(Suc i, c)] else [])"
| "rmatch Bol s i c = (if i = 0 then [(i, c)] else [])"
| "rmatch Eol s i c = (if i = length s then [(i, c)] else [])"
| "rmatch (Seq a b) s i c =
     concat (map (\<lambda>jc. rmatch b s (fst jc) (snd jc)) (rmatch a s i c))"
| "rmatch (Alt a b) s i c = rmatch a s i c @ rmatch b s i c"
| "rmatch (Star a) s i c =
     concat (map (\<lambda>jc. rmatch (Star a) s (fst jc) (snd jc))
       (filter (\<lambda>jc. i < fst jc \<and> fst jc \<le> length s) (rmatch a s i (enter a c))))
     @ [(i, c)]"
| "rmatch (Opt a) s i c =
     filter (\<lambda>jc. i < fst jc) (rmatch a s i (enter a c)) @ [(i, c)]"
| "rmatch (Cap a) s i c = map (\<lambda>jc. (fst jc, Some (i, fst jc))) (rmatch a s i c)"
| "rmatch (LookBehind a) s i c =
     (if list_ex (\<lambda>k. list_ex (\<lambda>jc. fst jc = i) (rmatch a s k None)) [0..<Suc i]
      then [(i, c)] else [])"
| "rmatch (LookAhead a) s i c =
     (case rmatch a s i c of [] \<Rightarrow> [] | jc # _ \<Rightarrow> [(i, snd jc)])"
  by pat_completeness auto
termination
  by (relation "measures [\<lambda>(r, s, i, c). size r, \<lambda>(r, s, i, c). length s - i]") auto

declare rmatch.simps [simp del]

lemma rmatch_bounds:
  "i \<le> length s \<Longrightarrow> jc \<in> set (rmatch r s i c) \<Longrightarrow> i \<le> fst jc \<and> fst jc \<le> length s"
proof (induction r s i c arbitrary: jc rule: rmatch.induct)
  case (6 a b s i c)
  from "6.prems"(2) obtain kc where kc: "kc \<in> set (rmatch a s i c)"
    and jc: "jc \<in> set (rmatch b s (fst kc) (snd kc))"
    by (auto simp: rmatch.simps(6))
  from "6.IH"(1) [OF "6.prems"(1) kc] have k: "i \<le> fst kc" "fst kc \<le> length s"
    by simp_all
  from "6.IH"(2) [OF kc k(2) jc] k(1) show ?case
    by simp
next
  case (8 a s i c)
  show ?case
  proof (cases "jc = (i, c)")
    case True
    with "8.prems"(1) show ?thesis by simp
  next
    case False
    with "8.prems"(2) obtain kc where kc: "kc \<in> set (rmatch a s i (enter a c))"
      and k: "i < fst kc" "fst kc \<le> length s"
      and jc: "jc \<in> set (rmatch (Star a) s (fst kc) (snd kc))"
      by (auto simp: rmatch.simps(8) [of a s i c])
    have "kc \<in> set (filter (\<lambda>jc. i < fst jc \<and> fst jc \<le> length s) (rmatch a s i (enter a c)))"
      using kc k by simp
    from "8.IH"(2) [OF this k(2) jc] k(1) show ?thesis
      by simp
  qed
next
  case (12 a s i c)
  then show ?case
    by (auto simp: rmatch.simps(12) split: list.splits)
qed (auto simp: rmatch.simps(1-5) rmatch.simps(7) rmatch.simps(9-11) split: if_splits)

text \<open>
  RegExpBuiltinExec: the first position at or after \<open>p\<close> where the expression matches,
  with the match the backtracking order prefers there.
\<close>

record hit =
  start :: nat
  stop :: nat
  group :: capture

function search :: "regex \<Rightarrow> jsstring \<Rightarrow> nat \<Rightarrow> hit option" where
  "search r s p =
     (if length s < p then None
      else case rmatch r s p None of
        [] \<Rightarrow> search r s (Suc p)
      | jc # _ \<Rightarrow> Some \<lparr>start = p, stop = fst jc, group = snd jc\<rparr>)"
  by pat_completeness auto
termination
  by (relation "measure (\<lambda>(r, s, p). Suc (length s) - p)") auto

declare search.simps [simp del]

lemma search_bounds:
  "search r s p = Some h \<Longrightarrow> p \<le> start h \<and> start h \<le> stop h \<and> stop h \<le> length s"
proof (induction r s p rule: search.induct)
  case (1 r s p)
  show ?case
  proof (cases "rmatch r s p None")
    case Nil
    with "1.prems" have "\<not> length s < p" and "search r s (Suc p) = Some h"
      by (auto simp: search.simps [of r s p] split: if_splits)
    with "1.IH" Nil show ?thesis
      by fastforce
  next
    case (Cons jc rest)
    with "1.prems" have p: "p \<le> length s" and h: "h = \<lparr>start = p, stop = fst jc, group = snd jc\<rparr>"
      by (auto simp: search.simps [of r s p] split: if_splits)
    from Cons have "jc \<in> set (rmatch r s p None)"
      by simp
    from rmatch_bounds [OF p this] h show ?thesis
      by simp
  qed
qed

text \<open>
  What \<^verbatim>\<open>String.prototype.match\<close> returns for an expression without the \<^verbatim>\<open>g\<close> flag:
  the index of the match, the matched text, and the text of the first capture group
  (\<open>None\<close> for \<^verbatim>\<open>undefined\<close>: no such group, or a group that took no part).
\<close>

record regmatch =
  index :: nat
  whole :: jsstring
  group1 :: "jsstring option"

definition between :: "jsstring \<Rightarrow> nat \<Rightarrow> nat \<Rightarrow> jsstring" where
  "between s b e = take (e - b) (drop b s)"

definition js_match :: "regex \<Rightarrow> jsstring \<Rightarrow> regmatch option" where
  "js_match r s =
     (case search r s 0 of
        None \<Rightarrow> None
      | Some h \<Rightarrow> Some \<lparr>index = start h, whole = between s (start h) (stop h),
          group1 = map_option (\<lambda>be. between s (fst be) (snd be)) (group h)\<rparr>)"

text \<open>
  \<^verbatim>\<open>String.prototype.replace\<close> with a replacement that is a fixed text or \<^verbatim>\<open>"$1"\<close>.
  Without the \<^verbatim>\<open>g\<close> flag the first match is replaced; with it every match, the search
  going on from the end of the last match, one further after an empty match.
\<close>

datatype replacement = Text jsstring | Group1

fun expand :: "replacement \<Rightarrow> jsstring \<Rightarrow> capture \<Rightarrow> jsstring" where
  "expand (Text t) s c = t"
| "expand Group1 s None = []"
| "expand Group1 s (Some be) = between s (fst be) (snd be)"

definition replace :: "regex \<Rightarrow> replacement \<Rightarrow> jsstring \<Rightarrow> jsstring" where
  "replace r rep s =
     (case search r s 0 of
        None \<Rightarrow> s
      | Some h \<Rightarrow> take (start h) s @ expand rep s (group h) @ drop (stop h) s)"

function replace_from :: "regex \<Rightarrow> replacement \<Rightarrow> jsstring \<Rightarrow> nat \<Rightarrow> nat \<Rightarrow> jsstring" where
  "replace_from r rep s lastIndex copied =
     (case search r s lastIndex of
        None \<Rightarrow> drop copied s
      | Some h \<Rightarrow>
          between s copied (start h) @ expand rep s (group h) @
          replace_from r rep s (if stop h = start h then Suc (stop h) else stop h) (stop h))"
  by pat_completeness auto
termination
proof (relation "measure (\<lambda>(r, rep, s, lastIndex, copied). Suc (length s) - lastIndex)")
  show "wf (measure (\<lambda>(r, rep, s, lastIndex, copied). Suc (length s) - lastIndex))"
    by simp
next
  fix r :: regex and rep :: replacement and s :: jsstring and lastIndex copied :: nat and h :: hit
  assume "search r s lastIndex = Some h"
  from search_bounds [OF this]
  show "((r, rep, s, if stop h = start h then Suc (stop h) else stop h, stop h),
          (r, rep, s, lastIndex, copied))
        \<in> measure (\<lambda>(r, rep, s, lastIndex, copied). Suc (length s) - lastIndex)"
    by auto
qed

declare replace_from.simps [simp del]

definition replace_all :: "regex \<Rightarrow> replacement \<Rightarrow> jsstring \<Rightarrow> jsstring" where
  "replace_all r rep s = replace_from r rep s 0 0"

subsection \<open>Writing expressions\<close>

definition chars :: "string \<Rightarrow> (jschar \<times> jschar) list" where
  "chars cs = map (\<lambda>c. (of_char c, of_char c)) cs"

definition Plus :: "regex \<Rightarrow> regex" where
  "Plus a = Seq a (Star a)"

text \<open>The dot matches every code unit but the line terminators.\<close>

definition Dot :: regex where
  "Dot = NCls [(0xA, 0xA), (0xD, 0xD), (0x2028, 0x2029)]"

fun seqs :: "regex list \<Rightarrow> regex" where
  "seqs [] = Eps"
| "seqs [r] = r"
| "seqs (r # rs) = Seq r (seqs rs)"

text \<open>\<^verbatim>\<open>\w\<close> is \<^verbatim>\<open>[A-Za-z0-9_]\<close>.\<close>

definition word_chars :: "(jschar \<times> jschar) list" where
  "word_chars = [(0x41, 0x5A), (0x61, 0x7A), (0x30, 0x39), (0x5F, 0x5F)]"

text \<open>
  A letter under the \<^verbatim>\<open>i\<close> flag (without the \<^verbatim>\<open>u\<close> flag) matches its two ASCII cases:
  no code unit beyond ASCII is canonicalized to an ASCII letter.
\<close>

definition either_case :: "char \<Rightarrow> regex" where
  "either_case c =
     (let n = of_char c in
      if 0x61 \<le> n \<and> n \<le> 0x7A then Cls [(n, n), (n - 0x20, n - 0x20)]
      else if 0x41 \<le> n \<and> n \<le> 0x5A then Cls [(n, n), (n + 0x20, n + 0x20)]
      else Cls [(n, n)])"

section \<open>The title sanitizer\<close>

text \<open>The constants of \<^verbatim>\<open>parser.js\<close>, lines 4 to 9.\<close>

definition NON_ENGLISH_CHARS :: "(jschar \<times> jschar) list" where
  "NON_ENGLISH_CHARS =
     [(0x3040, 0x30FF), (0x3400, 0x4DBF), (0x4E00, 0x9FFF), (0xF900, 0xFAFF),
      (0xFF66, 0xFF9F), (0x0400, 0x04FF)]"

text \<open>
  \<^verbatim>\<open>\([^)]*[C][^)]*\)$|(?<=\/.*)\(.*\)$\<close>, where \<^verbatim>\<open>C\<close> stands for the range from
  U+0400 to U+04FF.
\<close>

definition RUSSIAN_CAST_REGEX :: regex where
  "RUSSIAN_CAST_REGEX =
     Alt
       (seqs [Cls (chars ''(''), Star (NCls (chars '')'')), Cls [(0x0400, 0x04FF)],
          Star (NCls (chars '')'')), Cls (chars '')''), Eol])
       (seqs [LookBehind (Seq (Cls (chars ''/'')) (Star Dot)), Cls (chars ''(''), Star Dot,
          Cls (chars '')''), Eol])"

text \<open>
  \<^verbatim>\<open>[^/|(]*[N][^/|]*[/|]|[/|][^/|(]*[N][^/|]*\<close> with the \<^verbatim>\<open>g\<close> flag, where \<^verbatim>\<open>N\<close>
  stands for \<open>NON_ENGLISH_CHARS\<close>.
\<close>

definition ALT_TITLES_REGEX :: regex where
  "ALT_TITLES_REGEX =
     Alt
       (seqs [Star (NCls (chars ''/|('')), Cls NON_ENGLISH_CHARS, Star (NCls (chars ''/|'')),
          Cls (chars ''/|'')])
       (seqs [Cls (chars ''/|''), Star (NCls (chars ''/|('')), Cls NON_ENGLISH_CHARS,
          Star (NCls (chars ''/|''))])"

text \<open>
  \<^verbatim>\<open>(?<=[a-zA-Z][^N]+)[N].*[N]|[N].*[N](?=[^N]+[a-zA-Z])\<close> with the \<^verbatim>\<open>g\<close> flag.
\<close>

definition NOT_ONLY_NON_ENGLISH_REGEX :: regex where
  "NOT_ONLY_NON_ENGLISH_REGEX =
     Alt
       (seqs [LookBehind (Seq (Cls [(0x61, 0x7A), (0x41, 0x5A)]) (Plus (NCls NON_ENGLISH_CHARS))),
          Cls NON_ENGLISH_CHARS, Star Dot, Cls NON_ENGLISH_CHARS])
       (seqs [Cls NON_ENGLISH_CHARS, Star Dot, Cls NON_ENGLISH_CHARS,
          LookAhead (Seq (Plus (NCls NON_ENGLISH_CHARS)) (Cls [(0x61, 0x7A), (0x41, 0x5A)]))])"

text \<open>
  \<^verbatim>\<open>^[^\wN#[LS]+|[ \-:/\\[|{(#$&^]+$\<close> with the \<^verbatim>\<open>g\<close> flag, where \<^verbatim>\<open>L\<close> stands
  for the left lenticular bracket U+3010 and \<^verbatim>\<open>S\<close> for the star U+2605; 0x5C is the
  backslash.
\<close>

definition NOT_ALLOWED_SYMBOLS_AT_START_AND_END :: regex where
  "NOT_ALLOWED_SYMBOLS_AT_START_AND_END =
     Alt
       (Seq Bol (Plus (NCls (word_chars @ NON_ENGLISH_CHARS @ chars ''#['' @
          [(0x3010, 0x3010), (0x2605, 0x2605)]))))
       (Seq (Plus (Cls (chars '' -:/'' @ [(0x5C, 0x5C)] @ chars ''[|{(#$&^''))) Eol)"

text \<open>\<^verbatim>\<open>^[^\wN#]+|[[\]({} ]+$\<close> with the \<^verbatim>\<open>g\<close> flag.\<close>

definition REMAINING_NOT_ALLOWED_SYMBOLS_AT_START_AND_END :: regex where
  "REMAINING_NOT_ALLOWED_SYMBOLS_AT_START_AND_END =
     Alt
       (Seq Bol (Plus (NCls (word_chars @ NON_ENGLISH_CHARS @ chars ''#''))))
       (Seq (Plus (Cls (chars ''[]({} ''))) Eol)"

text \<open>
  The expressions written in place in \<^verbatim>\<open>cleanTitle\<close>. In the comments below
  \<^verbatim>\<open>L\<close> stands for U+3010, \<^verbatim>\<open>R\<close> for the right lenticular bracket U+3011 and
  \<^verbatim>\<open>S\<close> for U+2605.
\<close>

definition opening_marks :: "(jschar \<times> jschar) list" where
  "opening_marks = chars ''['' @ [(0x3010, 0x3010), (0x2605, 0x2605)]"

definition closing_marks :: "(jschar \<times> jschar) list" where
  "closing_marks = chars '']'' @ [(0x3011, 0x3011), (0x2605, 0x2605)]"

text \<open>\<^verbatim>\<open>/[[(]movie[)\]]/i\<close>\<close>

definition movie_flag :: regex where
  "movie_flag = seqs ([Cls (chars ''[('')] @ map either_case ''movie'' @ [Cls (chars '')]'')])"

text \<open>\<^verbatim>\<open>/^[[LS].*[\]RS][ .]?(.+)/\<close>\<close>

definition markings_at_start :: regex where
  "markings_at_start =
     seqs [Bol, Cls opening_marks, Star Dot, Cls closing_marks, Opt (Cls (chars '' .'')),
       Cap (Plus Dot)]"

text \<open>\<^verbatim>\<open>/(.+)[ .]?[[LS].*[\]RS]$/\<close>\<close>

definition markings_at_end :: regex where
  "markings_at_end =
     seqs [Cap (Plus Dot), Opt (Cls (chars '' .'')), Cls opening_marks, Star Dot,
       Cls closing_marks, Eol]"

definition cleanTitle :: "jsstring \<Rightarrow> jsstring" where
  "cleanTitle rawTitle =
     (let cleanedTitle =
        (if \<not> js_includes rawTitle (js '' '') \<and> js_includes rawTitle (js ''.'')
         then replace_all (Cls (chars ''.'')) (Text (js '' '')) rawTitle
         else rawTitle);
        t1 = replace_all (Cls (chars ''_'')) (Text (js '' '')) cleanedTitle;
        t2 = replace movie_flag (Text []) t1;
        t3 = replace_all NOT_ALLOWED_SYMBOLS_AT_START_AND_END (Text []) t2;
        t4 = replace RUSSIAN_CAST_REGEX (Text []) t3;
        t5 = replace markings_at_start Group1 t4;
        t6 = replace markings_at_end Group1 t5;
        t7 = replace_all ALT_TITLES_REGEX (Text []) t6;
        t8 = replace_all NOT_ONLY_NON_ENGLISH_REGEX (Text []) t7;
        t9 = replace_all REMAINING_NOT_ALLOWED_SYMBOLS_AT_START_AND_END (Text []) t8
      in trim t9)"

section \<open>Handlers\<close>

text \<open>
  An object with string keys is an association list in insertion order; reading a key
  that is absent gives \<^verbatim>\<open>undefined\<close>. (Keys are taken not to name a property of
  \<^verbatim>\<open>Object.prototype\<close>.)
\<close>

type_synonym obj = "(jsstring \<times> jsval) list"

definition lookup :: "obj \<Rightarrow> jsstring \<Rightarrow> jsval" where
  "lookup ob k = (case map_of ob k of None \<Rightarrow> VUndefined | Some v \<Rightarrow> v)"

text \<open>
  An entry of the matched registry is \<^verbatim>\<open>{ rawMatch, matchIndex }\<close>; what a handler
  returns on success adds \<^verbatim>\<open>remove\<close> and \<^verbatim>\<open>skipFromTitle\<close>. \<open>None\<close> stands for a
  handler's \<^verbatim>\<open>null\<close>.
\<close>

record entry =
  rawMatch :: jsstring
  matchIndex :: nat

record outcome = entry +
  remove :: bool
  skipFromTitle :: bool

text \<open>
  The object \<^verbatim>\<open>{ title, result, matched }\<close> that a handler is called with. A handler
  writes to \<^verbatim>\<open>result\<close> and \<^verbatim>\<open>matched\<close>; it gives back the object and its return
  value.
\<close>

record parse_context =
  title :: jsstring
  result :: obj
  matched :: "(jsstring \<times> entry) list"

type_synonym handler = "parse_context \<Rightarrow> parse_context \<times> outcome option"

text \<open>
  A \<^verbatim>\<open>RegExp\<close> value is used through \<^verbatim>\<open>title.match(regExp)\<close> only, so it is
  represented by what that call returns (for an expression without the \<^verbatim>\<open>g\<close> flag).
  \<open>RegExp r\<close> is the value of the expression \<open>r\<close>.
\<close>

type_synonym regexp = "jsstring \<Rightarrow> regmatch option"

definition RegExp :: "regex \<Rightarrow> regexp" where
  "RegExp r = js_match r"

text \<open>A transformer receives the clean match and the field's current value.\<close>

type_synonym transformer = "jsstring \<Rightarrow> jsval \<Rightarrow> jsval"

text \<open>
  Modelled from the spec: \<^verbatim>\<open>none\<close> of \<^verbatim>\<open>./transformers\<close>, which is not among the
  sources. The default transformer is a pass-through that returns the cleaned match
  unchanged.
\<close>

definition none :: transformer where
  "none input previous = VStr input"

text \<open>
  The options of a pattern handler. \<^verbatim>\<open>value\<close> is \<^verbatim>\<open>undefined\<close> when the caller gave
  none. The fields \<^verbatim>\<open>skipFromTitle\<close>, \<^verbatim>\<open>remove\<close> and \<^verbatim>\<open>value\<close> carry a suffix: the
  first two are also fields of a match outcome.
\<close>

record options =
  skipIfAlreadyFound :: bool
  skipFromTitleOption :: bool
  skipIfFirst :: bool
  skipIfBefore :: "jsstring list"
  removeOption :: bool
  valueOption :: jsval

definition DEFAULT_OPTIONS :: options where
  "DEFAULT_OPTIONS =
     \<lparr>skipIfAlreadyFound = True, skipFromTitleOption = False, skipIfFirst = False,
      skipIfBefore = [], removeOption = False, valueOption = VUndefined\<rparr>"

text \<open>
  What a caller passes as options: each key may be absent. \<open>extendOptions\<close> is
  \<^verbatim>\<open>{ ...DEFAULT_OPTIONS, ...options }\<close>; spreading \<^verbatim>\<open>undefined\<close> (\<open>None\<close>) adds nothing.
\<close>

record given_options =
  givenSkipIfAlreadyFound :: "bool option"
  givenSkipFromTitle :: "bool option"
  givenSkipIfFirst :: "bool option"
  givenSkipIfBefore :: "jsstring list option"
  givenRemove :: "bool option"
  givenValue :: "jsval option"

definition or_default :: "'a option \<Rightarrow> 'a \<Rightarrow> 'a" where
  "or_default given d = (case given of None \<Rightarrow> d | Some x \<Rightarrow> x)"

fun extendOptions :: "given_options option \<Rightarrow> options" where
  "extendOptions None = DEFAULT_OPTIONS"
| "extendOptions (Some g) =
     \<lparr>skipIfAlreadyFound = or_default (givenSkipIfAlreadyFound g) (skipIfAlreadyFound DEFAULT_OPTIONS),
      skipFromTitleOption = or_default (givenSkipFromTitle g) (skipFromTitleOption DEFAULT_OPTIONS),
      skipIfFirst = or_default (givenSkipIfFirst g) (skipIfFirst DEFAULT_OPTIONS),
      skipIfBefore = or_default (givenSkipIfBefore g) (skipIfBefore DEFAULT_OPTIONS),
      removeOption = or_default (givenRemove g) (removeOption DEFAULT_OPTIONS),
      valueOption = or_default (givenValue g) (valueOption DEFAULT_OPTIONS)\<rparr>"

text \<open>\<^verbatim>\<open>/^\[([^[\]]+)]/\<close>, the bracketed marker at the very start of the title.\<close>

definition before_title :: regex where
  "before_title =
     seqs [Bol, Cls (chars ''[''), Cap (Plus (NCls (chars ''[]''))), Cls (chars '']'')]"

text \<open>
  \<open>createHandlerFromRegExp\<close>, lines 22 to 58. \<^verbatim>\<open>if (rawMatch)\<close> asks for a match
  that is not empty; \<^verbatim>\<open>cleanMatch || rawMatch\<close> (\<open>clean_or_raw\<close>) falls back to the
  whole match when the first group is \<^verbatim>\<open>undefined\<close> or empty;
  \<^verbatim>\<open>otherMatches.length\<close> is truthy when there is another field. A match of
  \<open>before_title\<close> always has its group (lemma \<open>before_title_has_group\<close>), so the
  branch for a missing group is never taken.
\<close>

definition clean_or_raw :: "regmatch \<Rightarrow> jsstring" where
  "clean_or_raw match =
     (case group1 match of
        None \<Rightarrow> whole match
      | Some cleanMatch \<Rightarrow> if cleanMatch \<noteq> [] then cleanMatch else whole match)"

definition createHandlerFromRegExp ::
    "jsstring \<Rightarrow> regexp \<Rightarrow> transformer \<Rightarrow> options \<Rightarrow> handler" where
  "createHandlerFromRegExp name regExp transformer opts ctx =
     (if truthy (lookup (result ctx) name) \<and> skipIfAlreadyFound opts then (ctx, None)
      else case regExp (title ctx) of
        None \<Rightarrow> (ctx, None)
      | Some match \<Rightarrow>
          if whole match \<noteq> [] then
            let transformed = transformer (clean_or_raw match) (lookup (result ctx) name);
                isBeforeTitle =
                  (case js_match before_title (title ctx) of
                     None \<Rightarrow> False
                   | Some beforeTitleMatch \<Rightarrow>
                       (case group1 beforeTitleMatch of
                          None \<Rightarrow> False
                        | Some inside \<Rightarrow> js_includes inside (whole match)));
                otherMatches = filter (\<lambda>e. fst e \<noteq> name) (matched ctx);
                isSkipIfFirst =
                  (skipIfFirst opts \<and> otherMatches \<noteq> [] \<and>
                   list_all (\<lambda>e. index match < matchIndex (snd e)) otherMatches);
                isSkipIfBefore =
                  list_ex
                    (\<lambda>group. case map_of (matched ctx) group of
                        None \<Rightarrow> False
                      | Some e \<Rightarrow> index match < matchIndex e)
                    (skipIfBefore opts)
            in
              if truthy transformed \<and> \<not> isSkipIfFirst \<and> \<not> isSkipIfBefore then
                (ctx\<lparr>matched :=
                       AList.update name
                         (case map_of (matched ctx) name of
                            None \<Rightarrow> \<lparr>rawMatch = whole match, matchIndex = index match\<rparr>
                          | Some e \<Rightarrow> e)
                         (matched ctx),
                     result := AList.update name (js_or (valueOption opts) transformed) (result ctx)\<rparr>,
                 Some \<lparr>rawMatch = whole match, matchIndex = index match,
                   remove = removeOption opts,
                   skipFromTitle = (isBeforeTitle \<or> skipFromTitleOption opts)\<rparr>)
              else (ctx, None)
          else (ctx, None))"

section \<open>The parser\<close>

text \<open>
  The arguments of \<^verbatim>\<open>addHandler\<close> are dynamically typed. Each position is a datatype
  of what the method tells apart there: a function (used as a handler, or as a
  transformer), a regular expression, an options object, or some other value.
\<close>

datatype name_arg = NameFunction handler | NameValue jsval

datatype handler_arg = HandlerRegExp regexp | HandlerFunction handler | HandlerValue jsval

datatype transformer_arg =
    TransformerFunction transformer
  | TransformerObject given_options
  | TransformerValue jsval

fun typeof :: "jsval \<Rightarrow> string" where
  "typeof VUndefined = ''undefined''"
| "typeof VNull = ''object''"
| "typeof (VBool b) = ''boolean''"
| "typeof (VNum n) = ''number''"
| "typeof (VStr s) = ''string''"
| "typeof (VArray xs) = ''object''"

fun typeof_handler :: "handler_arg \<Rightarrow> string" where
  "typeof_handler (HandlerRegExp r) = ''object''"
| "typeof_handler (HandlerFunction f) = ''function''"
| "typeof_handler (HandlerValue v) = typeof v"

fun typeof_transformer :: "transformer_arg \<Rightarrow> string" where
  "typeof_transformer (TransformerFunction f) = ''function''"
| "typeof_transformer (TransformerObject g) = ''object''"
| "typeof_transformer (TransformerValue v) = typeof v"

text \<open>
  The error that \<^verbatim>\<open>addHandler\<close> throws; it carries \<^verbatim>\<open>typeof handler\<close>, the end of its
  message.
\<close>

datatype error = Error string

text \<open>A registered handler is a function with its \<^verbatim>\<open>handlerName\<close> property.\<close>

record registered =
  handlerName :: name_arg
  call :: handler

type_synonym parser = "registered list"

text \<open>
  \<open>addHandler\<close>, lines 88 to 115. In the branch for a regular expression, line 98
  makes \<^verbatim>\<open>transformer\<close> a function (the one given, or \<open>none\<close>) before line 99 asks
  whether \<^verbatim>\<open>typeof transformer\<close> is \<^verbatim>\<open>"object"\<close>; spreading a function into the
  options would add no key.
\<close>

definition addHandler ::
    "parser \<Rightarrow> name_arg \<Rightarrow> handler_arg \<Rightarrow> transformer_arg \<Rightarrow> given_options option
      \<Rightarrow> error + parser" where
  "addHandler handlers nameArg handlerArg transformerArg optionsArg =
     (case (nameArg, handlerArg) of
        (NameFunction f, HandlerValue VUndefined) \<Rightarrow>
          Inr (handlers @ [\<lparr>handlerName = NameValue (VStr (js ''unknown'')), call = f\<rparr>])
      | (NameValue (VStr name), HandlerRegExp regExp) \<Rightarrow>
          let transformer1 =
                (case transformerArg of TransformerFunction f \<Rightarrow> f | _ \<Rightarrow> none);
              options1 =
                extendOptions
                  (if typeof_transformer (TransformerFunction transformer1) = ''object''
                   then None else optionsArg)
          in Inr (handlers @
               [\<lparr>handlerName = nameArg,
                 call = createHandlerFromRegExp name regExp transformer1 options1\<rparr>])
      | (_, HandlerFunction f) \<Rightarrow>
          Inr (handlers @ [\<lparr>handlerName = nameArg, call = f\<rparr>])
      | _ \<Rightarrow> Inl (Error (typeof_handler handlerArg)))"

text \<open>
  The state of \<^verbatim>\<open>parse\<close>: the working title, the result object, the matched registry
  and \<^verbatim>\<open>endOfTitle\<close>, which is an integer (the subtraction of line 134 can take it
  below zero).
\<close>

record parse_state = parse_context +
  endOfTitle :: int

definition context_of :: "parse_state \<Rightarrow> parse_context" where
  "context_of st = \<lparr>title = title st, result = result st, matched = matched st\<rparr>"

text \<open>One turn of the loop of lines 123 to 136.\<close>

definition step :: "handler \<Rightarrow> parse_state \<Rightarrow> parse_state" where
  "step h st =
     (case h (context_of st) of
        (ctx, None) \<Rightarrow>
          \<lparr>title = title st, result = result ctx, matched = matched ctx,
           endOfTitle = endOfTitle st\<rparr>
      | (ctx, Some matchResult) \<Rightarrow>
          let title1 =
                (if remove matchResult
                 then slice (title st) 0 (int (matchIndex matchResult)) @
                      slice_from (title st)
                        (int (matchIndex matchResult) + int (length (rawMatch matchResult)))
                 else title st);
              end1 =
                (if \<not> skipFromTitle matchResult \<and> matchIndex matchResult \<noteq> 0 \<and>
                    int (matchIndex matchResult) < endOfTitle st
                 then int (matchIndex matchResult) else endOfTitle st);
              end2 =
                (if remove matchResult \<and> skipFromTitle matchResult \<and>
                    int (matchIndex matchResult) < end1
                 then end1 - int (length (rawMatch matchResult)) else end1)
          in \<lparr>title = title1, result = result ctx, matched = matched ctx, endOfTitle = end2\<rparr>)"

text \<open>Lines 118 to 121: \<^verbatim>\<open>/_+/g\<close> becomes a space, and the state starts empty.\<close>

definition initial :: "jsstring \<Rightarrow> parse_state" where
  "initial input =
     (let title0 = replace_all (Plus (Cls (chars ''_''))) (Text (js '' '')) input
      in \<lparr>title = title0, result = [], matched = [], endOfTitle = int (length title0)\<rparr>)"

fun run :: "parser \<Rightarrow> parse_state \<Rightarrow> parse_state" where
  "run [] st = st"
| "run (h # hs) st = run hs (step (call h) st)"

definition parse :: "parser \<Rightarrow> jsstring \<Rightarrow> obj" where
  "parse handlers input =
     (let st = run handlers (initial input)
      in AList.update (js ''title'')
           (VStr (cleanTitle (slice (title st) 0 (endOfTitle st)))) (result st))"

text \<open>
  The states of a run, from the initial one to the final one: state \<open>k\<close> is the one
  that handler \<open>k\<close> is called in.
\<close>

fun states :: "parser \<Rightarrow> parse_state \<Rightarrow> parse_state list" where
  "states [] st = [st]"
| "states (h # hs) st = st # states hs (step (call h) st)"

section \<open>Runs of the pipeline\<close>




text \<open>The condition of \<^verbatim>\<open>skipIfFirst\<close>, as a property of the matched registry.\<close>

definition precedes_every_other_field ::
    "jsstring \<Rightarrow> (jsstring \<times> entry) list \<Rightarrow> nat \<Rightarrow> bool" where
  "precedes_every_other_field name reg i \<longleftrightarrow>
     (\<exists>e \<in> set reg. fst e \<noteq> name) \<and> (\<forall>e \<in> set reg. fst e \<noteq> name \<longrightarrow> i < matchIndex (snd e))"

definition vetoed_as_first :: "jsstring \<Rightarrow> regexp \<Rightarrow> parse_context \<Rightarrow> bool" where
  "vetoed_as_first name regExp ctx =
     (case regExp (title ctx) of
        None \<Rightarrow> False
      | Some match \<Rightarrow> precedes_every_other_field name (matched ctx) (index match))"



text \<open>An expression every match of which sets the capture.\<close>

definition captures :: "regex \<Rightarrow> jsstring \<Rightarrow> bool" where
  "captures r s \<longleftrightarrow> (\<forall>i c. \<forall>jc \<in> set (rmatch r s i c). snd jc \<noteq> None)"

subsection \<open>Handlers for the examples\<close>

text \<open>\<^verbatim>\<open>addHandler("a", /a/)\<close> and \<^verbatim>\<open>addHandler("b", /b/)\<close>, with the default options.\<close>

definition find_a :: handler where
  "find_a = createHandlerFromRegExp (js ''a'') (RegExp (Cls (chars ''a''))) none DEFAULT_OPTIONS"

definition find_b :: handler where
  "find_b = createHandlerFromRegExp (js ''b'') (RegExp (Cls (chars ''b''))) none DEFAULT_OPTIONS"

text \<open>\<^verbatim>\<open>addHandler("ab", /ab/, none, { remove: true, skipFromTitle: true })\<close>\<close>

definition cut_ab :: handler where
  "cut_ab =
     createHandlerFromRegExp (js ''ab'') (RegExp (Seq (Cls (chars ''a'')) (Cls (chars ''b'')))) none
       (DEFAULT_OPTIONS\<lparr>removeOption := True, skipFromTitleOption := True\<rparr>)"

text \<open>
  \<^verbatim>\<open>addHandler("n", /a/, none, { value: 0 })\<close> and
  \<^verbatim>\<open>addHandler("n", /a/, none, { value: 7 })\<close>
\<close>

definition valued_zero :: handler where
  "valued_zero =
     createHandlerFromRegExp (js ''n'') (RegExp (Cls (chars ''a''))) none
       (DEFAULT_OPTIONS\<lparr>valueOption := VNum 0\<rparr>)"

definition valued_seven :: handler where
  "valued_seven =
     createHandlerFromRegExp (js ''n'') (RegExp (Cls (chars ''a''))) none
       (DEFAULT_OPTIONS\<lparr>valueOption := VNum 7\<rparr>)"

text \<open>\<^verbatim>\<open>addHandler("a", /a/, none, { skipIfFirst: true })\<close>\<close>

definition find_a_unless_first :: handler where
  "find_a_unless_first =
     createHandlerFromRegExp (js ''a'') (RegExp (Cls (chars ''a''))) none
       (DEFAULT_OPTIONS\<lparr>skipIfFirst := True\<rparr>)"

text \<open>\<^verbatim>\<open>/[0-9][0-9][0-9][0-9]/\<close> and \<^verbatim>\<open>/19[0-9][0-9]/\<close>, for a field \<^verbatim>\<open>"year"\<close>.\<close>

definition four_digits :: regex where
  "four_digits = seqs (replicate 4 (Cls [(0x30, 0x39)]))"


text \<open>An options object with no key; the examples add theirs to it.\<close>

definition no_options :: given_options where
  "no_options =
     \<lparr>givenSkipIfAlreadyFound = None, givenSkipFromTitle = None, givenSkipIfFirst = None,
      givenSkipIfBefore = None, givenRemove = None, givenValue = None\<rparr>"

text \<open>A handler as it stands in the registry, under a name.\<close>

definition registered_as :: "string \<Rightarrow> handler \<Rightarrow> registered" where
  "registered_as n h = \<lparr>handlerName = NameValue (VStr (js n)), call = h\<rparr>"

section \<open>Auxiliary facts\<close>






subsection \<open>Matches of an expression\<close>

text \<open>The search finds the leftmost match; a text without a match is left as it is.\<close>

lemma search_None:
  assumes "search r s p = None" and "p \<le> q" and "q \<le> length s"
  shows "rmatch r s q None = []"
  using assms
proof (induction r s p rule: search.induct)
  case (1 r s p)
  from "1.prems" have inside: "\<not> length s < p"
    by simp
  with "1.prems"(1) have here: "rmatch r s p None = []" and rest: "search r s (Suc p) = None"
    by (auto simp: search.simps [of r s p] split: list.splits)
  show ?case
  proof (cases "q = p")
    case True
    with here show ?thesis by simp
  next
    case False
    with "1.prems"(2) have "Suc p \<le> q" by simp
    with "1.IH" [OF inside here rest] "1.prems"(3) show ?thesis
      by simp
  qed
qed

lemma search_leftmost:
  assumes "search r s p = Some h" and "p \<le> q" and "q < start h"
  shows "rmatch r s q None = []"
  using assms
proof (induction r s p rule: search.induct)
  case (1 r s p)
  show ?case
  proof (cases "rmatch r s p None")
    case Nil
    with "1.prems"(1) have inside: "\<not> length s < p" and rest: "search r s (Suc p) = Some h"
      by (auto simp: search.simps [of r s p] split: if_splits)
    show ?thesis
    proof (cases "q = p")
      case True
      with Nil show ?thesis by simp
    next
      case False
      with "1.prems"(2) have "Suc p \<le> q" by simp
      with "1.IH" [OF inside Nil rest] "1.prems"(3) show ?thesis
        by simp
    qed
  next
    case (Cons jc rest)
    with "1.prems"(1) have "start h = p"
      by (auto simp: search.simps [of r s p] split: if_splits)
    with "1.prems"(2,3) show ?thesis
      by simp
  qed
qed

lemma replace_unmatched:
  assumes "search r s 0 = None"
  shows "replace r rep s = s" and "replace_all r rep s = s"
  using assms by (simp_all add: replace_def replace_all_def replace_from.simps [of r rep s 0 0])

lemma js_match_span:
  assumes "js_match r s = Some m"
  shows "index m + length (whole m) \<le> length s \<and>
         whole m = take (length (whole m)) (drop (index m) s)"
proof -
  from assms obtain h where h: "search r s 0 = Some h"
    and m: "m = \<lparr>index = start h, whole = between s (start h) (stop h),
          group1 = map_option (\<lambda>be. between s (fst be) (snd be)) (group h)\<rparr>"
    by (auto simp: js_match_def split: option.splits)
  from search_bounds [OF h] have "start h \<le> stop h" and "stop h \<le> length s"
    by simp_all
  with m show ?thesis
    by (simp add: between_def min_def)
qed

lemma captures_Seq: "captures b s \<Longrightarrow> captures (Seq a b) s"
  by (simp add: captures_def rmatch.simps(6))

lemma captures_Cap_Cls: "captures (Seq (Cap a) (Cls rs)) s"
  by (simp add: captures_def rmatch.simps(6) rmatch.simps(10) rmatch.simps(2))

lemma captures_before_title: "captures before_title s"
  by (simp add: before_title_def captures_Seq captures_Cap_Cls)

lemma search_group:
  assumes "captures r s" and "search r s p = Some h"
  shows "group h \<noteq> None"
  using assms
proof (induction r s p rule: search.induct)
  case (1 r s p)
  show ?case
  proof (cases "rmatch r s p None")
    case Nil
    with "1.prems"(2) have "\<not> length s < p" and "search r s (Suc p) = Some h"
      by (auto simp: search.simps [of r s p] split: if_splits)
    with "1.IH" Nil "1.prems"(1) show ?thesis
      by fastforce
  next
    case (Cons jc rest)
    with "1.prems"(2) have h: "h = \<lparr>start = p, stop = fst jc, group = snd jc\<rparr>"
      by (auto simp: search.simps [of r s p] split: if_splits)
    from Cons have "jc \<in> set (rmatch r s p None)"
      by simp
    with "1.prems"(1) have "snd jc \<noteq> None"
      unfolding captures_def by blast
    with h show ?thesis
      by simp
  qed
qed

lemma before_title_has_group:
  assumes "js_match before_title s = Some b"
  shows "group1 b \<noteq> None"
proof -
  from assms obtain h where h: "search before_title s 0 = Some h"
    and b: "b = \<lparr>index = start h, whole = between s (start h) (stop h),
          group1 = map_option (\<lambda>be. between s (fst be) (snd be)) (group h)\<rparr>"
    by (auto simp: js_match_def split: option.splits)
  have "group h \<noteq> None"
    using captures_before_title h by (rule search_group)
  with b show ?thesis
    by simp
qed

subsection \<open>One call of a handler, one turn of the loop\<close>










lemma others_precede_iff:
  "(filter (\<lambda>e. fst e \<noteq> name) reg \<noteq> [] \<and>
    list_all (\<lambda>e. i < matchIndex (snd e)) (filter (\<lambda>e. fst e \<noteq> name) reg)) =
   precedes_every_other_field name reg i"
  by (auto simp: precedes_every_other_field_def filter_empty_conv list_all_iff)

subsection \<open>The states of a run\<close>

lemma states_length: "length (states hs st) = Suc (length hs)"
  by (induction hs arbitrary: st) simp_all

lemma states_not_Nil: "states hs st \<noteq> []"
  by (cases hs) simp_all

lemma states_last: "last (states hs st) = run hs st"
  by (induction hs arbitrary: st) (simp_all add: states_not_Nil)










subsection \<open>The working title only loses text\<close>





subsection \<open>Registration\<close>




text \<open>The handlers of the examples are the ones that \<^verbatim>\<open>addHandler\<close> registers.\<close>

lemma examples_registered:
  "addHandler [] (NameValue (VStr (js ''a''))) (HandlerRegExp (RegExp (Cls (chars ''a''))))
     (TransformerValue VUndefined) None = Inr [registered_as ''a'' find_a]"
  "addHandler [] (NameValue (VStr (js ''b''))) (HandlerRegExp (RegExp (Cls (chars ''b''))))
     (TransformerValue VUndefined) None = Inr [registered_as ''b'' find_b]"
  "addHandler [] (NameValue (VStr (js ''ab'')))
     (HandlerRegExp (RegExp (Seq (Cls (chars ''a'')) (Cls (chars ''b'')))))
     (TransformerFunction none)
     (Some (no_options\<lparr>givenRemove := Some True, givenSkipFromTitle := Some True\<rparr>)) =
     Inr [registered_as ''ab'' cut_ab]"
  "addHandler [] (NameValue (VStr (js ''n''))) (HandlerRegExp (RegExp (Cls (chars ''a''))))
     (TransformerFunction none) (Some (no_options\<lparr>givenValue := Some (VNum 0)\<rparr>)) =
     Inr [registered_as ''n'' valued_zero]"
  "addHandler [] (NameValue (VStr (js ''n''))) (HandlerRegExp (RegExp (Cls (chars ''a''))))
     (TransformerFunction none) (Some (no_options\<lparr>givenValue := Some (VNum 7)\<rparr>)) =
     Inr [registered_as ''n'' valued_seven]"
  "addHandler [] (NameValue (VStr (js ''a''))) (HandlerRegExp (RegExp (Cls (chars ''a''))))
     (TransformerFunction none) (Some (no_options\<lparr>givenSkipIfFirst := Some True\<rparr>)) =
     Inr [registered_as ''a'' find_a_unless_first]"
  by (simp_all add: addHandler_def registered_as_def find_a_def find_b_def cut_ab_def
      valued_zero_def valued_seven_def find_a_unless_first_def no_options_def or_default_def
      DEFAULT_OPTIONS_def js_def)


section \<open>The title end boundary\<close>




text \<open>
  C2, as amended. For every match outcome whose \<^verbatim>\<open>skipFromTitle\<close> flag is false: if
  the start index of the match is not 0 and is strictly less than the current end
  boundary, \<^verbatim>\<open>parse\<close> lowers the boundary exactly to that start index; a match that
  starts at index 0 leaves the boundary as it is (as does one at or beyond it).
\<close>

theorem boundary_lowered_to_nonzero_start:
  assumes "h (context_of st) = (ctx, Some m)" and "\<not> skipFromTitle m"
  shows "endOfTitle (step h st) =
           (if matchIndex m \<noteq> 0 \<and> int (matchIndex m) < endOfTitle st
            then int (matchIndex m) else endOfTitle st)"
  using assms by (simp add: step_def Let_def)

text \<open>
  The claim as stated fails at start index 0: \<^verbatim>\<open>addHandler("a", /a/)\<close> on \<^verbatim>\<open>"ab"\<close>
  matches at index 0 with \<^verbatim>\<open>skipFromTitle\<close> false, 0 is less than the boundary 2, and
  the boundary stays 2 (line 128 asks for a truthy \<^verbatim>\<open>matchIndex\<close>).
\<close>

theorem boundary_kept_at_start_zero_counterexample:
  "find_a (context_of (initial (js ''ab''))) =
     (\<lparr>title = js ''ab'', result = [(js ''a'', VStr (js ''a''))],
       matched = [(js ''a'', \<lparr>rawMatch = js ''a'', matchIndex = 0\<rparr>)]\<rparr>,
      Some \<lparr>rawMatch = js ''a'', matchIndex = 0, remove = False, skipFromTitle = False\<rparr>) \<and>
   endOfTitle (initial (js ''ab'')) = 2 \<and>
   endOfTitle (step find_a (initial (js ''ab''))) = 2"
  by code_simp

text \<open>The amended claim on \<^verbatim>\<open>"ab"\<close> with \<^verbatim>\<open>addHandler("b", /b/)\<close>: from 2 to 1.\<close>

theorem boundary_lowered_witness:
  "endOfTitle (step find_b (initial (js ''ab''))) = 1"
proof -
  have a: "find_b (context_of (initial (js ''ab''))) =
     (\<lparr>title = js ''ab'', result = [(js ''b'', VStr (js ''b''))],
       matched = [(js ''b'', \<lparr>rawMatch = js ''b'', matchIndex = 1\<rparr>)]\<rparr>,
      Some \<lparr>rawMatch = js ''b'', matchIndex = 1, remove = False, skipFromTitle = False\<rparr>)"
    by code_simp
  have b: "endOfTitle (initial (js ''ab'')) = 2"
    by code_simp
  from boundary_lowered_to_nonzero_start [where h = find_b and st = "initial (js ''ab'')", OF a] b
  show ?thesis
    by simp
qed

section \<open>Registration and precedence\<close>

text \<open>
  C3. In a call \<^verbatim>\<open>addHandler(name, regExp, opts)\<close> whose third argument is an options
  object and not a function, the object has no effect: the call registers what the
  same call without it registers, which (with no fourth argument) is the pattern
  handler with the transformer \<open>none\<close> and the default options.
\<close>

theorem options_in_transformer_position_ignored:
  "addHandler hs (NameValue (VStr name)) (HandlerRegExp regExp) (TransformerObject g) optionsArg =
     addHandler hs (NameValue (VStr name)) (HandlerRegExp regExp) (TransformerValue VUndefined)
       optionsArg \<and>
   addHandler hs (NameValue (VStr name)) (HandlerRegExp regExp) (TransformerObject g) None =
     Inr (hs @ [\<lparr>handlerName = NameValue (VStr name),
       call = createHandlerFromRegExp name regExp none DEFAULT_OPTIONS\<rparr>])"
  by (simp add: addHandler_def)

text \<open>
  \<^verbatim>\<open>addHandler("a", /a/, { skipIfFirst: true, remove: true })\<close> registers the handler
  of \<^verbatim>\<open>addHandler("a", /a/)\<close>.
\<close>

theorem options_in_transformer_position_witness:
  "addHandler [] (NameValue (VStr (js ''a''))) (HandlerRegExp (RegExp (Cls (chars ''a''))))
     (TransformerObject
       \<lparr>givenSkipIfAlreadyFound = None, givenSkipFromTitle = None, givenSkipIfFirst = Some True,
        givenSkipIfBefore = None, givenRemove = Some True, givenValue = None\<rparr>) None =
     Inr [\<lparr>handlerName = NameValue (VStr (js ''a'')), call = find_a\<rparr>]"
  using options_in_transformer_position_ignored [of "[]" "js ''a''" "RegExp (Cls (chars ''a''))"
      "\<lparr>givenSkipIfAlreadyFound = None, givenSkipFromTitle = None, givenSkipIfFirst = Some True,
        givenSkipIfBefore = None, givenRemove = Some True, givenValue = None\<rparr>" None, THEN conjunct2]
  by (simp add: find_a_def)



section \<open>Removal, vetoes and fixed values\<close>



text \<open>
  C6. A pattern handler with \<^verbatim>\<open>skipIfFirst\<close> set is a no-op exactly when its pattern
  matches, some field other than its own is recorded in the matched registry, and the
  start index of the match is strictly less than the recorded \<^verbatim>\<open>matchIndex\<close> of every
  such field; in all other cases it does what the same handler without the option does.
\<close>

theorem skipIfFirst_vetoes_exactly_the_first_match:
  "createHandlerFromRegExp name regExp transformer (opts\<lparr>skipIfFirst := True\<rparr>) ctx =
     (if vetoed_as_first name regExp ctx then (ctx, None)
      else createHandlerFromRegExp name regExp transformer (opts\<lparr>skipIfFirst := False\<rparr>) ctx)"
proof (cases "regExp (title ctx)")
  case None
  then show ?thesis
    by (simp add: createHandlerFromRegExp_def vetoed_as_first_def)
next
  case (Some match)
  have eq: "(filter (\<lambda>e. fst e \<noteq> name) (matched ctx) \<noteq> [] \<and>
      list_all (\<lambda>e. index match < matchIndex (snd e))
        (filter (\<lambda>e. fst e \<noteq> name) (matched ctx))) =
    precedes_every_other_field name (matched ctx) (index match)"
    by (rule others_precede_iff)
  show ?thesis
  proof (cases "precedes_every_other_field name (matched ctx) (index match)")
    case True
    with Some eq show ?thesis
      by (simp add: createHandlerFromRegExp_def vetoed_as_first_def Let_def)
  next
    case False
    with Some eq show ?thesis
      by (simp add: createHandlerFromRegExp_def vetoed_as_first_def Let_def)
  qed
qed

text \<open>
  On \<^verbatim>\<open>"ab"\<close> with the field \<^verbatim>\<open>"b"\<close> recorded at index 1,
  \<^verbatim>\<open>addHandler("a", /a/, none, { skipIfFirst: true })\<close> matches at index 0 and is a
  no-op; with \<^verbatim>\<open>"b"\<close> recorded at index 0 it is not vetoed and does what
  \<^verbatim>\<open>addHandler("a", /a/)\<close> does.
\<close>

theorem skipIfFirst_witness:
  "find_a_unless_first
     \<lparr>title = js ''ab'', result = [],
      matched = [(js ''b'', \<lparr>rawMatch = js ''b'', matchIndex = 1\<rparr>)]\<rparr> =
     (\<lparr>title = js ''ab'', result = [],
       matched = [(js ''b'', \<lparr>rawMatch = js ''b'', matchIndex = 1\<rparr>)]\<rparr>, None) \<and>
   find_a_unless_first
     \<lparr>title = js ''ab'', result = [],
      matched = [(js ''b'', \<lparr>rawMatch = js ''b'', matchIndex = 0\<rparr>)]\<rparr> =
     find_a
       \<lparr>title = js ''ab'', result = [],
        matched = [(js ''b'', \<lparr>rawMatch = js ''b'', matchIndex = 0\<rparr>)]\<rparr>"
proof -
  let ?later = "\<lparr>title = js ''ab'', result = [],
      matched = [(js ''b'', \<lparr>rawMatch = js ''b'', matchIndex = 1\<rparr>)]\<rparr>"
  let ?same = "\<lparr>title = js ''ab'', result = [],
      matched = [(js ''b'', \<lparr>rawMatch = js ''b'', matchIndex = 0\<rparr>)]\<rparr>"
  have on: "DEFAULT_OPTIONS\<lparr>skipIfFirst := True\<rparr> = DEFAULT_OPTIONS\<lparr>skipIfFirst := True\<rparr>"
    by simp
  have off: "DEFAULT_OPTIONS\<lparr>skipIfFirst := False\<rparr> = DEFAULT_OPTIONS"
    by (simp add: DEFAULT_OPTIONS_def)
  have veto: "vetoed_as_first (js ''a'') (RegExp (Cls (chars ''a''))) ?later"
    by code_simp
  have free: "\<not> vetoed_as_first (js ''a'') (RegExp (Cls (chars ''a''))) ?same"
    by code_simp
  from skipIfFirst_vetoes_exactly_the_first_match [of "js ''a''" "RegExp (Cls (chars ''a''))" none
      DEFAULT_OPTIONS ?later] veto
  have first: "find_a_unless_first ?later = (?later, None)"
    by (simp add: find_a_unless_first_def)
  from skipIfFirst_vetoes_exactly_the_first_match [of "js ''a''" "RegExp (Cls (chars ''a''))" none
      DEFAULT_OPTIONS ?same] free off
  have "find_a_unless_first ?same = find_a ?same"
    by (simp add: find_a_unless_first_def find_a_def)
  with first show ?thesis
    by blast
qed




section \<open>Errors and the returned object\<close>



text \<open>
  C9. With no handler registered, \<^verbatim>\<open>parse("Movie.Name.2020.1080p-GROUP")\<close> returns the
  title \<^verbatim>\<open>"Movie Name 2020 1080p-GROUP"\<close>. The slice that reaches the sanitizer is the
  whole input; it holds no space and holds dots, so every dot becomes a space; both
  passes that strip symbols from the start and the end, and the final trim, leave the
  text as it is.
\<close>

theorem parse_dotted_release_name:
  "parse [] (js ''Movie.Name.2020.1080p-GROUP'') =
     [(js ''title'', VStr (js ''Movie Name 2020 1080p-GROUP''))] \<and>
   slice (title (run [] (initial (js ''Movie.Name.2020.1080p-GROUP'')))) 0
     (endOfTitle (run [] (initial (js ''Movie.Name.2020.1080p-GROUP'')))) =
     js ''Movie.Name.2020.1080p-GROUP'' \<and>
   \<not> js_includes (js ''Movie.Name.2020.1080p-GROUP'') (js '' '') \<and>
   js_includes (js ''Movie.Name.2020.1080p-GROUP'') (js ''.'') \<and>
   replace_all (Cls (chars ''.'')) (Text (js '' '')) (js ''Movie.Name.2020.1080p-GROUP'') =
     js ''Movie Name 2020 1080p-GROUP'' \<and>
   replace_all NOT_ALLOWED_SYMBOLS_AT_START_AND_END (Text []) (js ''Movie Name 2020 1080p-GROUP'') =
     js ''Movie Name 2020 1080p-GROUP'' \<and>
   replace_all REMAINING_NOT_ALLOWED_SYMBOLS_AT_START_AND_END (Text [])
     (js ''Movie Name 2020 1080p-GROUP'') = js ''Movie Name 2020 1080p-GROUP'' \<and>
   trim (js ''Movie Name 2020 1080p-GROUP'') = js ''Movie Name 2020 1080p-GROUP''"
  by code_simp

text \<open>
  C10. For every handler list and input, the object that \<^verbatim>\<open>parse\<close> returns is the
  result map of the pipeline with its \<^verbatim>\<open>"title"\<close> entry set to the sanitizer applied to
  the slice of the working title from 0 to the end boundary. A value that a handler
  stored under \<^verbatim>\<open>"title"\<close> is overwritten by it; every other entry is as the handlers
  left it.
\<close>

theorem parse_title_entry:
  "map_of (parse hs input) =
     (map_of (result (run hs (initial input))))
       (js ''title'' \<mapsto>
          VStr (cleanTitle (slice (title (run hs (initial input))) 0
            (endOfTitle (run hs (initial input))))))"
  by (simp add: parse_def Let_def update_conv')

text \<open>
  \<^verbatim>\<open>addHandler("title", /[0-9][0-9][0-9][0-9]/)\<close> on \<^verbatim>\<open>"x2020"\<close> stores \<^verbatim>\<open>"2020"\<close>
  under \<^verbatim>\<open>"title"\<close>; the object returned has the title \<^verbatim>\<open>"x"\<close>.
\<close>

theorem parse_title_entry_witness:
  "lookup
     (result (run
       [\<lparr>handlerName = NameValue (VStr (js ''title'')),
          call = createHandlerFromRegExp (js ''title'') (RegExp four_digits) none DEFAULT_OPTIONS\<rparr>]
       (initial (js ''x2020'')))) (js ''title'') = VStr (js ''2020'') \<and>
   map_of
     (parse
       [\<lparr>handlerName = NameValue (VStr (js ''title'')),
          call = createHandlerFromRegExp (js ''title'') (RegExp four_digits) none DEFAULT_OPTIONS\<rparr>]
       (js ''x2020'')) (js ''title'') = Some (VStr (js ''x''))"
proof -
  let ?hs = "[\<lparr>handlerName = NameValue (VStr (js ''title'')),
      call = createHandlerFromRegExp (js ''title'') (RegExp four_digits) none DEFAULT_OPTIONS\<rparr>]"
  let ?st = "run ?hs (initial (js ''x2020''))"
  have stored: "lookup (result ?st) (js ''title'') = VStr (js ''2020'')"
    by code_simp
  have cleaned: "cleanTitle (slice (title ?st) 0 (endOfTitle ?st)) = js ''x''"
    by code_simp
  have "map_of (parse ?hs (js ''x2020'')) (js ''title'') =
      ((map_of (result ?st))
        (js ''title'' \<mapsto> VStr (cleanTitle (slice (title ?st) 0 (endOfTitle ?st))))) (js ''title'')"
    by (simp only: parse_title_entry)
  with cleaned have "map_of (parse ?hs (js ''x2020'')) (js ''title'') = Some (VStr (js ''x''))"
    by simp
  with stored show ?thesis
    by blast
qed

end
